theory Spec2Isabelle
  imports Main "HOL-Library.AList"
begin

section \<open>Errors\<close>

text \<open>
  Go's \<^verbatim>\<open>error\<close> values.  A nil error is \<open>None\<close>, a non-nil one \<open>Some e\<close>.
  \<^item> \<open>DriverErr msg\<close> is an error made outside package \<^verbatim>\<open>dbutils\<close>: by the database
    driver, by sqlx, or by the caller's unit of work.
  \<^item> \<open>SqlErr query args err\<close> is what \<^verbatim>\<open>sqlErr\<close> builds:
    \<^verbatim>\<open>fmt.Errorf(`run query "%s" with args %+v: %w`, query, args, err)\<close>.
  \<^item> \<open>BeginErr err\<close> is \<^verbatim>\<open>fmt.Errorf("begin transaction: %w", err)\<close>.
  \<^item> \<open>MultiErr errs\<close> is the aggregate of \<^verbatim>\<open>go.uber.org/multierr\<close>.
  The type \<open>'v\<close> is the type of query arguments and column values (\<^verbatim>\<open>interface{}\<close>).
\<close>

datatype 'v error =
    DriverErr string
  | SqlErr string "'v list" "'v error"
  | BeginErr "'v error"
  | MultiErr "'v error list"

text \<open>\<^verbatim>\<open>func sqlErr(err error, query string, args ...interface{}) error\<close>\<close>

definition sqlErr :: "'v error \<Rightarrow> string \<Rightarrow> 'v list \<Rightarrow> 'v error" where
  "sqlErr err query args = SqlErr query args err"

text \<open>\<^verbatim>\<open>errors.Unwrap\<close>: the error wrapped with \<^verbatim>\<open>%w\<close>, if any.\<close>

fun Unwrap :: "'v error \<Rightarrow> 'v error option" where
  "Unwrap (SqlErr query args err) = Some err"
| "Unwrap (BeginErr err) = Some err"
| "Unwrap e = None"

text \<open>
  \<^verbatim>\<open>multierr.Errors\<close> on a non-nil error: the list an aggregate holds, or the error alone.
\<close>

fun Errors :: "'v error \<Rightarrow> 'v error list" where
  "Errors (MultiErr errs) = errs"
| "Errors e = [e]"

text \<open>
  \<^verbatim>\<open>multierr.Combine(errors...)\<close>: nil errors are skipped; no error left gives nil, one error
  left gives that error itself, and two or more give an aggregate in which nested aggregates
  are flattened.
\<close>

definition Combine :: "'v error option list \<Rightarrow> 'v error option" where
  "Combine errors =
     (case List.map_filter id errors of
        [] \<Rightarrow> None
      | [e] \<Rightarrow> Some e
      | e # es \<Rightarrow> Some (MultiErr (concat (map Errors (e # es)))))"

section \<open>Execution state and the calls made on the database\<close>

datatype IsolationLevel =
    LevelDefault | LevelReadUncommitted | LevelReadCommitted | LevelWriteCommitted
  | LevelRepeatableRead | LevelSnapshot | LevelSerializable | LevelLinearizable

record TxOptions =
  Isolation :: IsolationLevel
  ReadOnly :: bool

text \<open>
  Every call the package makes on the database handle, a transaction, a cursor or the
  unit of work is recorded, in order.  \<open>EvBeginTxx opts ok\<close> records whether a transaction
  was opened.
\<close>

datatype 'v event =
    EvBeginTxx TxOptions bool
  | EvTxFunc
  | EvCommit
  | EvRollback
  | EvExecContext string "'v list"
  | EvSelectContext string "'v list"
  | EvGetContext string "'v list"
  | EvQueryxContext string "'v list"
  | EvQueryRowxContext string "'v list"
  | EvRowsNext
  | EvRowsMapScan
  | EvRowsErr
  | EvRowsClose
  | EvRowMapScan

text \<open>
  The state threaded through every function: \<open>world\<close> is the state of the database and
  of the caller (anything the driver and the unit of work read or write), \<open>log\<close> the calls
  made so far.
\<close>

record ('s, 'v) exec_state =
  world :: 's
  log :: "'v event list"

definition record_call :: "'v event \<Rightarrow> ('s, 'v) exec_state \<Rightarrow> 's \<Rightarrow> ('s, 'v) exec_state" where
  "record_call ev st w = \<lparr>world = w, log = log st @ [ev]\<rparr>"

section \<open>Transactions\<close>

text \<open>
  \<^verbatim>\<open>*sqlx.Tx\<close>: the two methods \<^verbatim>\<open>RunTx\<close> calls on it.  Each returns an error or nil and
  may change the world.
\<close>

record ('s, 'v) Tx =
  Commit :: "'s \<Rightarrow> 'v error option \<times> 's"
  Rollback :: "'s \<Rightarrow> 'v error option \<times> 's"

text \<open>
  \<^verbatim>\<open>type TxRunner interface { BeginTxx(context.Context, *sql.TxOptions) (*sqlx.Tx, error) }\<close>:
  \<open>Inl err\<close> when opening fails, \<open>Inr tx\<close> otherwise.
\<close>

type_synonym ('s, 'v) TxRunner = "TxOptions \<Rightarrow> 's \<Rightarrow> ('v error + ('s, 'v) Tx) \<times> 's"

text \<open>
  How a Go call ends: it returns its error result, or it panics.  The unit of work is the
  caller's code, so both are possible.
\<close>

datatype 'v outcome = Return "'v error option" | Panic

text \<open>\<^verbatim>\<open>type TxFunc func(tx *sqlx.Tx) error\<close>\<close>

type_synonym ('s, 'v) TxFunc = "('s, 'v) Tx \<Rightarrow> 's \<Rightarrow> 'v outcome \<times> 's"

definition call_BeginTxx ::
  "('s, 'v) TxRunner \<Rightarrow> TxOptions \<Rightarrow> ('s, 'v) exec_state
     \<Rightarrow> ('v error + ('s, 'v) Tx) \<times> ('s, 'v) exec_state" where
  "call_BeginTxx db opts st =
     (case db opts (world st) of
        (r, w) \<Rightarrow> (r, record_call (EvBeginTxx opts (\<not> isl r)) st w))"

definition call_TxFunc ::
  "('s, 'v) TxFunc \<Rightarrow> ('s, 'v) Tx \<Rightarrow> ('s, 'v) exec_state \<Rightarrow> 'v outcome \<times> ('s, 'v) exec_state" where
  "call_TxFunc f tx st = (case f tx (world st) of (r, w) \<Rightarrow> (r, record_call EvTxFunc st w))"

definition call_Commit ::
  "('s, 'v) Tx \<Rightarrow> ('s, 'v) exec_state \<Rightarrow> 'v error option \<times> ('s, 'v) exec_state" where
  "call_Commit tx st = (case Commit tx (world st) of (r, w) \<Rightarrow> (r, record_call EvCommit st w))"

definition call_Rollback ::
  "('s, 'v) Tx \<Rightarrow> ('s, 'v) exec_state \<Rightarrow> 'v error option \<times> ('s, 'v) exec_state" where
  "call_Rollback tx st =
     (case Rollback tx (world st) of (r, w) \<Rightarrow> (r, record_call EvRollback st w))"

text \<open>
  The deferred closure of \<^verbatim>\<open>RunTx\<close>, run with the value the named result \<^verbatim>\<open>err\<close> has when
  the function body ends:
  \<^verbatim>\<open>
  defer func() {
      if err != nil {
          err = multierr.Combine(err, tx.Rollback())
      } else {
          err = tx.Commit()
      }
  }()
  \<close>
\<close>

definition RunTx_deferred ::
  "('s, 'v) Tx \<Rightarrow> 'v error option \<Rightarrow> ('s, 'v) exec_state
     \<Rightarrow> 'v error option \<times> ('s, 'v) exec_state" where
  "RunTx_deferred tx err st =
     (if err \<noteq> None
      then (case call_Rollback tx st of (r, st') \<Rightarrow> (Combine [err, r], st'))
      else call_Commit tx st)"

text \<open>
  \<^verbatim>\<open>func RunTx(ctx context.Context, db TxRunner, f TxFunc) (err error)\<close>.
  When opening fails the function returns before the closure is deferred.  Otherwise
  \<^verbatim>\<open>return f(tx)\<close> stores the result of \<open>f\<close> in \<^verbatim>\<open>err\<close> and the closure runs.  When \<open>f\<close>
  panics nothing is stored: \<^verbatim>\<open>err\<close> still holds the nil that \<^verbatim>\<open>BeginTxx\<close> returned, the
  closure runs on it, and the panic goes on to the caller.
\<close>

definition RunTx_opts :: TxOptions where
  "RunTx_opts = \<lparr>Isolation = LevelReadCommitted, ReadOnly = False\<rparr>"

definition RunTx ::
  "('s, 'v) TxRunner \<Rightarrow> ('s, 'v) TxFunc \<Rightarrow> ('s, 'v) exec_state
     \<Rightarrow> 'v outcome \<times> ('s, 'v) exec_state" where
  "RunTx db f st =
     (case call_BeginTxx db RunTx_opts st of
       (Inl err, st1) \<Rightarrow> (Return (Some (BeginErr err)), st1)
     | (Inr tx, st1) \<Rightarrow>
         (case call_TxFunc f tx st1 of
            (Return err, st2) \<Rightarrow>
              (case RunTx_deferred tx err st2 of (err', st3) \<Rightarrow> (Return err', st3))
          | (Panic, st2) \<Rightarrow>
              (case RunTx_deferred tx None st2 of (err', st3) \<Rightarrow> (Panic, st3))))"

text \<open>
  Whether a list of calls leaves a transaction open: one was opened and neither
  \<^verbatim>\<open>Commit\<close> nor \<^verbatim>\<open>Rollback\<close> was called on it since.
\<close>

fun tx_open_after :: "bool \<Rightarrow> 'v event list \<Rightarrow> bool" where
  "tx_open_after b [] = b"
| "tx_open_after b (EvBeginTxx opts ok # evs) = tx_open_after (b \<or> ok) evs"
| "tx_open_after b (EvCommit # evs) = tx_open_after False evs"
| "tx_open_after b (EvRollback # evs) = tx_open_after False evs"
| "tx_open_after b (ev # evs) = tx_open_after b evs"

definition tx_left_open :: "'v event list \<Rightarrow> bool" where
  "tx_left_open evs = tx_open_after False evs"

section \<open>Result sets\<close>

text \<open>
  A Go map as \<^verbatim>\<open>make(map[string]interface{}, n)\<close> creates it and \<^verbatim>\<open>m[k] = v\<close> fills it:
  the size hint it was created with (none for the literal \<^verbatim>\<open>map[string]interface{}{}\<close>)
  and its entries, one per key.  \<^verbatim>\<open>len(m)\<close> is the number of entries.
\<close>

record 'v gomap =
  capacity_hint :: "nat option"
  entries :: "(string \<times> 'v) list"

definition make_map :: "nat option \<Rightarrow> 'v gomap" where
  "make_map hint = \<lparr>capacity_hint = hint, entries = []\<rparr>"

definition len :: "'v gomap \<Rightarrow> int" where
  "len m = int (length (entries m))"

text \<open>
  What a row delivers when it is scanned: an error, or the value of each column by its
  index (the driver's row buffer has one value per column).
\<close>

type_synonym 'v scan = "'v error + (nat \<Rightarrow> 'v)"

text \<open>
  \<^verbatim>\<open>*sqlx.Rows\<close>, the cursor over a result set: its column names, the rows not fetched
  yet, the row \<^verbatim>\<open>Next\<close> last moved to, the error \<^verbatim>\<open>Err\<close> reports once iteration has stopped,
  and the error \<^verbatim>\<open>Close\<close> returns.  The result set is finite and its column names are the
  same for every row.
\<close>

record 'v Rows =
  columns :: "string list"
  pending :: "'v scan list"
  current :: "'v scan option"
  iter_err :: "'v error option"
  close_err :: "'v error option"

text \<open>\<^verbatim>\<open>*sqlx.Row\<close>, the result of a single-row query.\<close>

record 'v Row =
  row_err :: "'v error option"
  row_columns :: "string list"
  row_scan :: "'v scan"

text \<open>
  The last loop of \<^verbatim>\<open>sqlx.MapScan\<close>:
  \<^verbatim>\<open>for i, column := range columns { dest[column] = *(values[i].(*interface{})) }\<close>
\<close>

fun MapScan_fill :: "string list \<Rightarrow> nat \<Rightarrow> (nat \<Rightarrow> 'v) \<Rightarrow> (string \<times> 'v) list \<Rightarrow> (string \<times> 'v) list" where
  "MapScan_fill [] i vals dest = dest"
| "MapScan_fill (column # cols) i vals dest =
     MapScan_fill cols (Suc i) vals (AList.update column (vals i) dest)"

definition log_call :: "'v event \<Rightarrow> ('s, 'v) exec_state \<Rightarrow> ('s, 'v) exec_state" where
  "log_call ev st = record_call ev st (world st)"

text \<open>\<^verbatim>\<open>rows.Next()\<close>: moves to the next row, or reports that there is none.\<close>

definition rows_Next ::
  "'v Rows \<Rightarrow> ('s, 'v) exec_state \<Rightarrow> bool \<times> 'v Rows \<times> ('s, 'v) exec_state" where
  "rows_Next rows st =
     (case pending rows of
        [] \<Rightarrow> (False, rows\<lparr>current := None\<rparr>, log_call EvRowsNext st)
      | r # rs \<Rightarrow> (True, rows\<lparr>pending := rs, current := Some r\<rparr>, log_call EvRowsNext st))"

text \<open>\<^verbatim>\<open>rows.MapScan(m)\<close>: scans the current row into \<open>m\<close>.\<close>

definition rows_MapScan ::
  "'v Rows \<Rightarrow> 'v gomap \<Rightarrow> ('s, 'v) exec_state
     \<Rightarrow> ('v gomap \<times> 'v error option) \<times> ('s, 'v) exec_state" where
  "rows_MapScan rows m st =
     (case current rows of
        None \<Rightarrow> ((m, Some (DriverErr ''sql: Scan called without calling Next'')),
                 log_call EvRowsMapScan st)
      | Some (Inl err) \<Rightarrow> ((m, Some err), log_call EvRowsMapScan st)
      | Some (Inr vals) \<Rightarrow>
          ((m\<lparr>entries := MapScan_fill (columns rows) 0 vals (entries m)\<rparr>, None),
           log_call EvRowsMapScan st))"

definition rows_Err ::
  "'v Rows \<Rightarrow> ('s, 'v) exec_state \<Rightarrow> 'v error option \<times> ('s, 'v) exec_state" where
  "rows_Err rows st = (iter_err rows, log_call EvRowsErr st)"

definition rows_Close ::
  "'v Rows \<Rightarrow> ('s, 'v) exec_state \<Rightarrow> 'v error option \<times> ('s, 'v) exec_state" where
  "rows_Close rows st = (close_err rows, log_call EvRowsClose st)"

text \<open>\<^verbatim>\<open>row.MapScan(m)\<close> on a single row.\<close>

definition row_MapScan ::
  "'v Row \<Rightarrow> 'v gomap \<Rightarrow> ('s, 'v) exec_state
     \<Rightarrow> ('v gomap \<times> 'v error option) \<times> ('s, 'v) exec_state" where
  "row_MapScan row m st =
     (case row_scan row of
        Inl err \<Rightarrow> ((m, Some err), log_call EvRowMapScan st)
      | Inr vals \<Rightarrow>
          ((m\<lparr>entries := MapScan_fill (row_columns row) 0 vals (entries m)\<rparr>, None),
           log_call EvRowMapScan st))"

section \<open>The database handle\<close>

text \<open>
  \<^verbatim>\<open>sqlx.ExtContext\<close> (it includes \<^verbatim>\<open>sqlx.ExecerContext\<close> and \<^verbatim>\<open>sqlx.QueryerContext\<close>), with
  what \<^verbatim>\<open>sqlx.SelectContext\<close> and \<^verbatim>\<open>sqlx.GetContext\<close> do on the handle.  \<open>'r\<close> is
  \<^verbatim>\<open>sql.Result\<close> (\<open>None\<close> is a nil result) and \<open>'d\<close> what the destination pointer of a
  select points to: the call receives the old content and returns the new one.
\<close>

record ('s, 'v, 'r, 'd) ExtContext =
  ExecContext :: "string \<Rightarrow> 'v list \<Rightarrow> 's \<Rightarrow> ('r option \<times> 'v error option) \<times> 's"
  SelectContext :: "'d \<Rightarrow> string \<Rightarrow> 'v list \<Rightarrow> 's \<Rightarrow> ('d \<times> 'v error option) \<times> 's"
  GetContext :: "'d \<Rightarrow> string \<Rightarrow> 'v list \<Rightarrow> 's \<Rightarrow> ('d \<times> 'v error option) \<times> 's"
  QueryxContext :: "string \<Rightarrow> 'v list \<Rightarrow> 's \<Rightarrow> ('v error + 'v Rows) \<times> 's"
  QueryRowxContext :: "string \<Rightarrow> 'v list \<Rightarrow> 's \<Rightarrow> 'v Row \<times> 's"
  Rebind :: "string \<Rightarrow> string"

definition call_ExecContext ::
  "('s, 'v, 'r, 'd) ExtContext \<Rightarrow> string \<Rightarrow> 'v list \<Rightarrow> ('s, 'v) exec_state
     \<Rightarrow> ('r option \<times> 'v error option) \<times> ('s, 'v) exec_state" where
  "call_ExecContext db query args st =
     (case ExecContext db query args (world st) of
        (r, w) \<Rightarrow> (r, record_call (EvExecContext query args) st w))"

definition call_SelectContext ::
  "('s, 'v, 'r, 'd) ExtContext \<Rightarrow> 'd \<Rightarrow> string \<Rightarrow> 'v list \<Rightarrow> ('s, 'v) exec_state
     \<Rightarrow> ('d \<times> 'v error option) \<times> ('s, 'v) exec_state" where
  "call_SelectContext db dest query args st =
     (case SelectContext db dest query args (world st) of
        (r, w) \<Rightarrow> (r, record_call (EvSelectContext query args) st w))"

definition call_GetContext ::
  "('s, 'v, 'r, 'd) ExtContext \<Rightarrow> 'd \<Rightarrow> string \<Rightarrow> 'v list \<Rightarrow> ('s, 'v) exec_state
     \<Rightarrow> ('d \<times> 'v error option) \<times> ('s, 'v) exec_state" where
  "call_GetContext db dest query args st =
     (case GetContext db dest query args (world st) of
        (r, w) \<Rightarrow> (r, record_call (EvGetContext query args) st w))"

definition call_QueryxContext ::
  "('s, 'v, 'r, 'd) ExtContext \<Rightarrow> string \<Rightarrow> 'v list \<Rightarrow> ('s, 'v) exec_state
     \<Rightarrow> ('v error + 'v Rows) \<times> ('s, 'v) exec_state" where
  "call_QueryxContext db query args st =
     (case QueryxContext db query args (world st) of
        (r, w) \<Rightarrow> (r, record_call (EvQueryxContext query args) st w))"

definition call_QueryRowxContext ::
  "('s, 'v, 'r, 'd) ExtContext \<Rightarrow> string \<Rightarrow> 'v list \<Rightarrow> ('s, 'v) exec_state
     \<Rightarrow> 'v Row \<times> ('s, 'v) exec_state" where
  "call_QueryRowxContext db query args st =
     (case QueryRowxContext db query args (world st) of
        (r, w) \<Rightarrow> (r, record_call (EvQueryRowxContext query args) st w))"

section \<open>Query helpers\<close>

text \<open>
  \<^verbatim>\<open>func Exec(ctx, db sqlx.ExecerContext, query string, args ...interface{}) (sql.Result, error)\<close>
\<close>

definition Exec ::
  "('s, 'v, 'r, 'd) ExtContext \<Rightarrow> string \<Rightarrow> 'v list \<Rightarrow> ('s, 'v) exec_state
     \<Rightarrow> ('r option \<times> 'v error option) \<times> ('s, 'v) exec_state" where
  "Exec db query args st =
     (case call_ExecContext db query args st of
        ((res, Some err), st') \<Rightarrow> ((res, Some (sqlErr err query args)), st')
      | ((res, None), st') \<Rightarrow> ((res, None), st'))"

text \<open>
  \<^verbatim>\<open>func Select(ctx, db sqlx.QueryerContext, dest interface{}, query string, args ...interface{}) error\<close>.
  The result pairs the error with the content of \<open>dest\<close> after the call.
\<close>

definition Select ::
  "('s, 'v, 'r, 'd) ExtContext \<Rightarrow> 'd \<Rightarrow> string \<Rightarrow> 'v list \<Rightarrow> ('s, 'v) exec_state
     \<Rightarrow> ('d \<times> 'v error option) \<times> ('s, 'v) exec_state" where
  "Select db dest query args st =
     (case call_SelectContext db dest query args st of
        ((dest', Some err), st') \<Rightarrow> ((dest', Some (sqlErr err query args)), st')
      | ((dest', None), st') \<Rightarrow> ((dest', None), st'))"

text \<open>
  \<^verbatim>\<open>func Get(ctx, db sqlx.QueryerContext, dest interface{}, query string, args ...interface{}) error\<close>
\<close>

definition Get ::
  "('s, 'v, 'r, 'd) ExtContext \<Rightarrow> 'd \<Rightarrow> string \<Rightarrow> 'v list \<Rightarrow> ('s, 'v) exec_state
     \<Rightarrow> ('d \<times> 'v error option) \<times> ('s, 'v) exec_state" where
  "Get db dest query args st =
     (case call_GetContext db dest query args st of
        ((dest', Some err), st') \<Rightarrow> ((dest', Some (sqlErr err query args)), st')
      | ((dest', None), st') \<Rightarrow> ((dest', None), st'))"

text \<open>
  The loop of \<^verbatim>\<open>SelectMaps\<close>, from the state its variables \<^verbatim>\<open>ret\<close> and \<^verbatim>\<open>numCols\<close> have:
  \<^verbatim>\<open>
  for rows.Next() {
      var m map[string]interface{}
      if numCols < 0 {
          m = map[string]interface{}{}
      } else {
          m = make(map[string]interface{}, numCols)
      }
      if err = rows.MapScan(m); err != nil {
          return nil, sqlErr(err, query, args...)
      }
      ret = append(ret, m)
      numCols = len(m)
  }
  \<close>
  \<open>Inl err\<close> is the \<^verbatim>\<open>return\<close> inside the loop, \<open>Inr ret\<close> the slice when the loop ends.
\<close>

function SelectMaps_loop ::
  "string \<Rightarrow> 'v list \<Rightarrow> 'v Rows \<Rightarrow> 'v gomap list \<Rightarrow> int \<Rightarrow> ('s, 'v) exec_state
     \<Rightarrow> ('v error + 'v gomap list) \<times> 'v Rows \<times> ('s, 'v) exec_state" where
  "SelectMaps_loop query args rows ret numCols st =
     (case rows_Next rows st of
        (False, rows1, st1) \<Rightarrow> (Inr ret, rows1, st1)
      | (True, rows1, st1) \<Rightarrow>
          (let m = (if numCols < 0 then make_map None else make_map (Some (nat numCols))) in
           case rows_MapScan rows1 m st1 of
             ((m', Some err), st2) \<Rightarrow> (Inl (sqlErr err query args), rows1, st2)
           | ((m', None), st2) \<Rightarrow>
               SelectMaps_loop query args rows1 (ret @ [m']) (len m') st2))"
  by pat_completeness auto
termination
  apply (relation "measure (\<lambda>(query, args, rows, ret, numCols, st). length (pending rows))")
   apply simp
  apply (auto simp: rows_Next_def split: list.splits)
  done

text \<open>
  \<^verbatim>\<open>SelectMaps\<close> from the line after the \<^verbatim>\<open>defer\<close> to its \<^verbatim>\<open>return\<close>: the values the named
  results \<^verbatim>\<open>ret\<close> and \<^verbatim>\<open>err\<close> have when the deferred closure starts.  A nil slice is \<open>None\<close>;
  \<^verbatim>\<open>ret = []map[string]interface{}{}\<close> is the empty, non-nil slice \<open>Some []\<close>.
\<close>

definition SelectMaps_body ::
  "string \<Rightarrow> 'v list \<Rightarrow> 'v Rows \<Rightarrow> ('s, 'v) exec_state
     \<Rightarrow> ('v gomap list option \<times> 'v error option) \<times> 'v Rows \<times> ('s, 'v) exec_state" where
  "SelectMaps_body query args rows st =
     (case SelectMaps_loop query args rows [] (- 1) st of
        (Inl err, rows1, st1) \<Rightarrow> ((None, Some err), rows1, st1)
      | (Inr ret, rows1, st1) \<Rightarrow>
          (case rows_Err rows1 st1 of
             (Some err, st2) \<Rightarrow> ((None, Some (sqlErr err query args)), rows1, st2)
           | (None, st2) \<Rightarrow> ((Some ret, None), rows1, st2)))"

text \<open>
  \<^verbatim>\<open>func SelectMaps(ctx, db sqlx.QueryerContext, query string, args ...interface{})
       (ret []map[string]interface{}, err error)\<close>.
  When the query fails the function returns before the closure is deferred.  Otherwise the
  closure \<^verbatim>\<open>err = multierr.Combine(err, rows.Close())\<close> runs last and sets the error returned.
\<close>

definition SelectMaps ::
  "('s, 'v, 'r, 'd) ExtContext \<Rightarrow> string \<Rightarrow> 'v list \<Rightarrow> ('s, 'v) exec_state
     \<Rightarrow> ('v gomap list option \<times> 'v error option) \<times> ('s, 'v) exec_state" where
  "SelectMaps db query args st =
     (case call_QueryxContext db query args st of
        (Inl err, st1) \<Rightarrow> ((None, Some (sqlErr err query args)), st1)
      | (Inr rows, st1) \<Rightarrow>
          (case SelectMaps_body query args rows st1 of
             ((ret, err), rows1, st2) \<Rightarrow>
               (case rows_Close rows1 st2 of
                  (cerr, st3) \<Rightarrow> ((ret, Combine [err, cerr]), st3))))"

text \<open>
  \<^verbatim>\<open>func GetMap(ctx, db sqlx.QueryerContext, query string, args ...interface{})
       (ret map[string]interface{}, err error)\<close>.
  \<^verbatim>\<open>row.Err()\<close> reads the error stored in the row.
\<close>

definition GetMap ::
  "('s, 'v, 'r, 'd) ExtContext \<Rightarrow> string \<Rightarrow> 'v list \<Rightarrow> ('s, 'v) exec_state
     \<Rightarrow> ('v gomap option \<times> 'v error option) \<times> ('s, 'v) exec_state" where
  "GetMap db query args st =
     (case call_QueryRowxContext db query args st of
        (row, st1) \<Rightarrow>
          (case row_err row of
             Some err \<Rightarrow> ((None, Some (sqlErr err query args)), st1)
           | None \<Rightarrow>
               (case row_MapScan row (make_map None) st1 of
                  ((ret, Some err), st2) \<Rightarrow> ((None, Some (sqlErr err query args)), st2)
                | ((ret, None), st2) \<Rightarrow> ((Some ret, None), st2))))"

section \<open>Named parameters\<close>

text \<open>
  \<^verbatim>\<open>sqlx.Named(query, arg)\<close> is a function of the query text and the argument alone: it
  returns the positional query, the positional arguments and an error.  The helpers take
  it as the parameter \<open>named\<close>; \<open>'a\<close> is the type of \<^verbatim>\<open>arg\<close>.

  \<^verbatim>\<open>func namedQuery(query string, arg interface{}) (nq string, args []interface{}, err error)\<close>
\<close>

type_synonym ('a, 'v) Named = "string \<Rightarrow> 'a \<Rightarrow> string \<times> 'v list \<times> 'v error option"

definition namedQuery ::
  "('a, 'v) Named \<Rightarrow> string \<Rightarrow> 'a \<Rightarrow> string \<times> 'v list \<times> 'v error option" where
  "namedQuery named query arg =
     (case named query arg of
        (nq, args, Some err) \<Rightarrow> ('''', [], Some (sqlErr err query args))
      | (nq, args, None) \<Rightarrow> (nq, args, None))"

text \<open>\<^verbatim>\<open>func NamedExec(ctx, db sqlx.ExtContext, query string, arg interface{}) (sql.Result, error)\<close>\<close>

definition NamedExec ::
  "('a, 'v) Named \<Rightarrow> ('s, 'v, 'r, 'd) ExtContext \<Rightarrow> string \<Rightarrow> 'a \<Rightarrow> ('s, 'v) exec_state
     \<Rightarrow> ('r option \<times> 'v error option) \<times> ('s, 'v) exec_state" where
  "NamedExec named db query arg st =
     (case namedQuery named query arg of
        (nq, args, Some err) \<Rightarrow> ((None, Some err), st)
      | (nq, args, None) \<Rightarrow> Exec db (Rebind db nq) args st)"

text \<open>
  \<^verbatim>\<open>func NamedSelect(ctx, db sqlx.ExtContext, dest interface{}, query string, arg interface{}) error\<close>
\<close>

definition NamedSelect ::
  "('a, 'v) Named \<Rightarrow> ('s, 'v, 'r, 'd) ExtContext \<Rightarrow> 'd \<Rightarrow> string \<Rightarrow> 'a \<Rightarrow> ('s, 'v) exec_state
     \<Rightarrow> ('d \<times> 'v error option) \<times> ('s, 'v) exec_state" where
  "NamedSelect named db dest query arg st =
     (case namedQuery named query arg of
        (nq, args, Some err) \<Rightarrow> ((dest, Some err), st)
      | (nq, args, None) \<Rightarrow> Select db dest (Rebind db nq) args st)"

text \<open>
  \<^verbatim>\<open>func NamedGet(ctx, db sqlx.ExtContext, dest interface{}, query string, arg interface{}) error\<close>
\<close>

definition NamedGet ::
  "('a, 'v) Named \<Rightarrow> ('s, 'v, 'r, 'd) ExtContext \<Rightarrow> 'd \<Rightarrow> string \<Rightarrow> 'a \<Rightarrow> ('s, 'v) exec_state
     \<Rightarrow> ('d \<times> 'v error option) \<times> ('s, 'v) exec_state" where
  "NamedGet named db dest query arg st =
     (case namedQuery named query arg of
        (nq, args, Some err) \<Rightarrow> ((dest, Some err), st)
      | (nq, args, None) \<Rightarrow> Get db dest (Rebind db nq) args st)"

text \<open>
  \<^verbatim>\<open>func NamedSelectMaps(ctx, db sqlx.ExtContext, query string, arg interface{})
       (ret []map[string]interface{}, err error)\<close>
\<close>

definition NamedSelectMaps ::
  "('a, 'v) Named \<Rightarrow> ('s, 'v, 'r, 'd) ExtContext \<Rightarrow> string \<Rightarrow> 'a \<Rightarrow> ('s, 'v) exec_state
     \<Rightarrow> ('v gomap list option \<times> 'v error option) \<times> ('s, 'v) exec_state" where
  "NamedSelectMaps named db query arg st =
     (case namedQuery named query arg of
        (nq, args, Some err) \<Rightarrow> ((None, Some err), st)
      | (nq, args, None) \<Rightarrow> SelectMaps db (Rebind db nq) args st)"

text \<open>
  \<^verbatim>\<open>func NamedGetMap(ctx, db sqlx.ExtContext, query string, arg interface{})
       (ret map[string]interface{}, err error)\<close>
\<close>

definition NamedGetMap ::
  "('a, 'v) Named \<Rightarrow> ('s, 'v, 'r, 'd) ExtContext \<Rightarrow> string \<Rightarrow> 'a \<Rightarrow> ('s, 'v) exec_state
     \<Rightarrow> ('v gomap option \<times> 'v error option) \<times> ('s, 'v) exec_state" where
  "NamedGetMap named db query arg st =
     (case namedQuery named query arg of
        (nq, args, Some err) \<Rightarrow> ((None, Some err), st)
      | (nq, args, None) \<Rightarrow> GetMap db (Rebind db nq) args st)"

text \<open>
  \<^verbatim>\<open>sqlx.Named\<close> on an argument of type \<^verbatim>\<open>map[string]interface{}\<close>, which is sqlx's
  \<^verbatim>\<open>bindMap\<close>.  A Go map has no order: \<open>arg\<close> lists its entries in the order one iteration over
  it would give, and two lists with the same \<open>map_of\<close> are the same map.

  \<^verbatim>\<open>bindMapArgs\<close> looks every placeholder name up in the map, in the order of the names:
  \<^verbatim>\<open>
  for _, name := range names {
      val, ok := arg[name]
      if !ok {
          return arglist, fmt.Errorf("could not find name %s in %#v", name, arg)
      }
      arglist = append(arglist, val)
  }
  return arglist, nil
  \<close>
  The parameter \<open>not_found\<close> is the error made from the name and the map.
\<close>

type_synonym 'v argmap = "(string \<times> 'v) list"

fun bindMapArgs ::
  "(string \<Rightarrow> (string \<rightharpoonup> 'v) \<Rightarrow> 'v error) \<Rightarrow> string list \<Rightarrow> 'v argmap \<Rightarrow> 'v list
     \<Rightarrow> 'v list \<times> 'v error option" where
  "bindMapArgs not_found [] arg arglist = (arglist, None)"
| "bindMapArgs not_found (name # names) arg arglist =
     (case map_of arg name of
        None \<Rightarrow> (arglist, Some (not_found name (map_of arg)))
      | Some val \<Rightarrow> bindMapArgs not_found names arg (arglist @ [val]))"

text \<open>
  \<^verbatim>\<open>bindMap\<close>: the query text is parsed into the positional query and the placeholder
  names (\<^verbatim>\<open>compileNamedQuery\<close>, a loop over the bytes of the query, taken as a parameter), then
  the names are bound:
  \<^verbatim>\<open>
  bound, names, err := compileNamedQuery([]byte(query), bindType)
  if err != nil {
      return "", []interface{}{}, err
  }
  arglist, err := bindMapArgs(names, args)
  return bound, arglist, err
  \<close>
\<close>

definition bindMap ::
  "(string \<Rightarrow> 'v error + string \<times> string list) \<Rightarrow> (string \<Rightarrow> (string \<rightharpoonup> 'v) \<Rightarrow> 'v error)
     \<Rightarrow> ('v argmap, 'v) Named" where
  "bindMap compileNamedQuery not_found query args =
     (case compileNamedQuery query of
        Inl err \<Rightarrow> ('''', [], Some err)
      | Inr (bound, names) \<Rightarrow>
          (case bindMapArgs not_found names args [] of
             (arglist, err) \<Rightarrow> (bound, arglist, err)))"

section \<open>Example runs\<close>

text \<open>
  Concrete databases and units of work.  The world is the journal of the statements
  the database has seen.
\<close>

definition good_tx :: "(string list, string) Tx" where
  "good_tx = \<lparr>Commit = (\<lambda>w. (None, w @ [''COMMIT''])),
             Rollback = (\<lambda>w. (None, w @ [''ROLLBACK'']))\<rparr>"

definition broken_tx :: "(string list, string) Tx" where
  "broken_tx = \<lparr>Commit = (\<lambda>w. (Some (DriverErr ''commit failed''), w)),
               Rollback = (\<lambda>w. (Some (DriverErr ''rollback failed''), w))\<rparr>"

definition good_db :: "(string list, string) TxRunner" where
  "good_db opts w = (Inr good_tx, w @ [''BEGIN''])"

definition flaky_db :: "(string list, string) TxRunner" where
  "flaky_db opts w = (Inr broken_tx, w @ [''BEGIN''])"

definition down_db :: "(string list, string) TxRunner" where
  "down_db opts w = (Inl (DriverErr ''connection refused''), w)"

definition update_work :: "(string list, string) TxFunc" where
  "update_work tx w = (Return None, w @ [''UPDATE test_users''])"

definition failing_work :: "(string list, string) TxFunc" where
  "failing_work tx w = (Return (Some (DriverErr ''no rows in result set'')), w @ [''SELECT''])"

definition panicking_work :: "(string list, string) TxFunc" where
  "panicking_work tx w = (Panic, w @ [''UPDATE test_users''])"

definition fresh :: "(string list, string) exec_state" where
  "fresh = \<lparr>world = [], log = []\<rparr>"

text \<open>
  A database with the table \<^verbatim>\<open>test_users\<close> of the example program, and the result sets
  of its queries.
\<close>

definition ivanov :: "nat \<Rightarrow> string" where
  "ivanov i = [''1'', ''ivanov''] ! i"

definition petrov :: "nat \<Rightarrow> string" where
  "petrov i = [''2'', ''petrov''] ! i"

definition users_rows :: "string Rows" where
  "users_rows = \<lparr>columns = [''id'', ''login''], pending = [Inr ivanov, Inr petrov],
                 current = None, iter_err = None, close_err = None\<rparr>"

definition users_db :: "(string list, string, nat, string list) ExtContext" where
  "users_db =
     \<lparr>ExecContext = (\<lambda>query args w. ((Some 3, None), w @ [query])),
      SelectContext = (\<lambda>dest query args w. (([''ivanov'', ''petrov''], None), w @ [query])),
      GetContext = (\<lambda>dest query args w.
                      ((dest, Some (DriverErr ''sql: no rows in result set'')), w @ [query])),
      QueryxContext = (\<lambda>query args w. (Inr users_rows, w @ [query])),
      QueryRowxContext = (\<lambda>query args w.
                            (\<lparr>row_err = None, row_columns = [''id'', ''login''],
                              row_scan = Inr ivanov\<rparr>, w @ [query])),
      Rebind = (\<lambda>query. query)\<rparr>"

text \<open>A handle whose queries return no row and whose cursors fail to close.\<close>

definition leaky_rows :: "string Rows" where
  "leaky_rows = \<lparr>columns = [''id'', ''login''], pending = [],
                 current = None, iter_err = None, close_err = Some (DriverErr ''close failed'')\<rparr>"

definition leaky_db :: "(string list, string, nat, string list) ExtContext" where
  "leaky_db = users_db\<lparr>QueryxContext := (\<lambda>query args w. (Inr leaky_rows, w @ [query]))\<rparr>"

text \<open>A handle whose queries return no row.\<close>

definition no_rows :: "string Rows" where
  "no_rows = \<lparr>columns = [''id'', ''login''], pending = [],
              current = None, iter_err = None, close_err = None\<rparr>"

definition empty_db :: "(string list, string, nat, string list) ExtContext" where
  "empty_db = users_db\<lparr>QueryxContext := (\<lambda>query args w. (Inr no_rows, w @ [query]))\<rparr>"

text \<open>
  Named-parameter expansion of a query with the one placeholder \<^verbatim>\<open>:login\<close>, on an
  argument map given as a list of pairs.
\<close>

definition login_named :: "((string \<times> string) list, string) Named" where
  "login_named query arg =
     (case map_of arg ''login'' of
        Some v \<Rightarrow> (''SELECT * FROM test_users WHERE login=?'', [v], None)
      | None \<Rightarrow> ('''', [], Some (DriverErr ''could not find name login'')))"

definition by_login :: string where
  "by_login = ''SELECT * FROM test_users WHERE login=:login''"

definition all_users :: string where
  "all_users = ''SELECT * FROM test_users''"

text \<open>The parse of the query with the placeholder \<^verbatim>\<open>:login\<close>, and the error of a missing name.\<close>

definition login_compile :: "string \<Rightarrow> string error + string \<times> string list" where
  "login_compile query =
     (if query = by_login then Inr (''SELECT * FROM test_users WHERE login=?'', [''login''])
      else Inr (query, []))"

definition name_not_found :: "string \<Rightarrow> (string \<rightharpoonup> string) \<Rightarrow> string error" where
  "name_not_found name arg = DriverErr (''could not find name '' @ name)"

text \<open>
  A join of \<^verbatim>\<open>test_users\<close> with a table of orders: both have a column \<^verbatim>\<open>id\<close>, so the
  result set has three columns and two distinct column names.
\<close>

definition ivanov_order :: "nat \<Rightarrow> string" where
  "ivanov_order i = [''1'', ''ivanov'', ''7''] ! i"

definition petrov_order :: "nat \<Rightarrow> string" where
  "petrov_order i = [''2'', ''petrov'', ''8''] ! i"

definition join_rows :: "string Rows" where
  "join_rows = \<lparr>columns = [''id'', ''login'', ''id''],
                pending = [Inr ivanov_order, Inr petrov_order],
                current = None, iter_err = None, close_err = None\<rparr>"

definition join_db :: "(string list, string, nat, string list) ExtContext" where
  "join_db = users_db\<lparr>QueryxContext := (\<lambda>query args w. (Inr join_rows, w @ [query]))\<rparr>"

definition all_orders :: string where
  "all_orders = ''SELECT * FROM test_users u JOIN test_orders o ON o.user_id = u.id''"

section \<open>Properties of the error aggregate\<close>

lemma Combine_nil_right: "Combine [Some e, None] = Some e"
  by (simp add: Combine_def List.map_filter_simps)

lemma Combine_nil_left: "Combine [None, r] = r"
  by (cases r) (simp_all add: Combine_def List.map_filter_simps)

lemma Combine_both: "Combine [Some e, Some r] = Some (MultiErr (Errors e @ Errors r))"
  by (simp add: Combine_def List.map_filter_simps)

section \<open>Properties of the transaction runner\<close>

lemmas RunTx_unfold =
  RunTx_def call_BeginTxx_def call_TxFunc_def RunTx_deferred_def call_Commit_def
  call_Rollback_def record_call_def

text \<open>
  C1.  When the transaction opens and the unit of work returns an error \<open>e\<close>, \<^verbatim>\<open>RunTx\<close> calls
  \<^verbatim>\<open>Rollback\<close> exactly once and never \<^verbatim>\<open>Commit\<close>.  When the rollback fails with \<open>re\<close> too, the
  error returned is the aggregate holding the errors of \<open>e\<close> followed by those of \<open>re\<close>:
  neither is dropped.  When the rollback succeeds, the error returned is \<open>e\<close>.
\<close>

theorem RunTx_failure_rolls_back_once:
  assumes "db RunTx_opts (world st) = (Inr tx, w1)"
    and "f tx w1 = (Return (Some e), w2)"
    and "Rollback tx w2 = (r, w3)"
  shows "\<exists>res evs.
           RunTx db f st = (Return (Some res), \<lparr>world = w3, log = log st @ evs\<rparr>)
           \<and> count_list evs EvRollback = 1
           \<and> count_list evs EvCommit = 0
           \<and> (r = None \<longrightarrow> res = e)
           \<and> (\<forall>re. r = Some re \<longrightarrow>
                 res = MultiErr (Errors e @ Errors re)
                 \<and> set (Errors e) \<subseteq> set (Errors res)
                 \<and> set (Errors re) \<subseteq> set (Errors res))"
proof (cases r)
  case None
  then show ?thesis
    using assms by (simp add: RunTx_unfold Combine_nil_right)
next
  case (Some re)
  then show ?thesis
    using assms by (simp add: RunTx_unfold Combine_both)
qed

theorem RunTx_failure_rolls_back_once_witness:
  "\<exists>evs. RunTx flaky_db failing_work fresh =
           (Return (Some (MultiErr [DriverErr ''no rows in result set'',
                                    DriverErr ''rollback failed''])),
            \<lparr>world = [''BEGIN'', ''SELECT''], log = evs\<rparr>)
         \<and> count_list evs EvRollback = 1 \<and> count_list evs EvCommit = 0"
proof -
  have h1: "flaky_db RunTx_opts (world fresh) = (Inr broken_tx, [''BEGIN''])"
    by (simp add: flaky_db_def fresh_def)
  have h2: "failing_work broken_tx [''BEGIN''] =
              (Return (Some (DriverErr ''no rows in result set'')), [''BEGIN'', ''SELECT''])"
    by (simp add: failing_work_def)
  have h3: "Rollback broken_tx [''BEGIN'', ''SELECT''] =
              (Some (DriverErr ''rollback failed''), [''BEGIN'', ''SELECT''])"
    by (simp add: broken_tx_def)
  from RunTx_failure_rolls_back_once
    [of flaky_db fresh broken_tx "[''BEGIN'']" failing_work
      "DriverErr ''no rows in result set''" "[''BEGIN'', ''SELECT'']"
      "Some (DriverErr ''rollback failed'')" "[''BEGIN'', ''SELECT'']", OF h1 h2 h3]
  show ?thesis by (auto simp: fresh_def)
qed

text \<open>
  C2.  When the transaction opens and the unit of work returns nil, \<^verbatim>\<open>RunTx\<close> calls \<^verbatim>\<open>Commit\<close>
  exactly once and never \<^verbatim>\<open>Rollback\<close>, and returns what \<^verbatim>\<open>Commit\<close> returned: the commit
  failure when there is one, nil otherwise.
\<close>

theorem RunTx_success_commits_once:
  assumes "db RunTx_opts (world st) = (Inr tx, w1)"
    and "f tx w1 = (Return None, w2)"
    and "Commit tx w2 = (c, w3)"
  shows "\<exists>evs.
           RunTx db f st = (Return c, \<lparr>world = w3, log = log st @ evs\<rparr>)
           \<and> count_list evs EvCommit = 1
           \<and> count_list evs EvRollback = 0"
  using assms by (simp add: RunTx_unfold)

theorem RunTx_success_commits_once_witness:
  "\<exists>evs. RunTx flaky_db update_work fresh =
           (Return (Some (DriverErr ''commit failed'')),
            \<lparr>world = [''BEGIN'', ''UPDATE test_users''], log = evs\<rparr>)
         \<and> count_list evs EvCommit = 1 \<and> count_list evs EvRollback = 0"
proof -
  have h1: "flaky_db RunTx_opts (world fresh) = (Inr broken_tx, [''BEGIN''])"
    by (simp add: flaky_db_def fresh_def)
  have h2: "update_work broken_tx [''BEGIN''] = (Return None, [''BEGIN'', ''UPDATE test_users''])"
    by (simp add: update_work_def)
  have h3: "Commit broken_tx [''BEGIN'', ''UPDATE test_users''] =
              (Some (DriverErr ''commit failed''), [''BEGIN'', ''UPDATE test_users''])"
    by (simp add: broken_tx_def)
  from RunTx_success_commits_once
    [of flaky_db fresh broken_tx "[''BEGIN'']" update_work "[''BEGIN'', ''UPDATE test_users'']"
      "Some (DriverErr ''commit failed'')" "[''BEGIN'', ''UPDATE test_users'']", OF h1 h2 h3]
  show ?thesis by (auto simp: fresh_def)
qed

text \<open>
  C3, as the claim states it, fails when opening the transaction fails: \<^verbatim>\<open>RunTx\<close> returns
  before the closure is deferred, and neither \<^verbatim>\<open>Commit\<close> nor \<^verbatim>\<open>Rollback\<close> is called.
\<close>

theorem RunTx_begin_failure_counterexample:
  "fst (RunTx down_db update_work fresh) = Return (Some (BeginErr (DriverErr ''connection refused'')))
   \<and> log (snd (RunTx down_db update_work fresh)) = [EvBeginTxx RunTx_opts False]
   \<and> count_list (log (snd (RunTx down_db update_work fresh))) EvCommit
       + count_list (log (snd (RunTx down_db update_work fresh))) EvRollback \<noteq> 1"
  by (simp add: RunTx_unfold down_db_def fresh_def)

text \<open>
  C3, amended.  In every invocation of \<^verbatim>\<open>RunTx\<close> in which the transaction opens, exactly one
  of \<^verbatim>\<open>Commit\<close> and \<^verbatim>\<open>Rollback\<close> is called, whether the unit of work returns or panics; when
  opening fails neither is called.  In every invocation the calls \<^verbatim>\<open>RunTx\<close> made leave no
  transaction open.
\<close>

theorem RunTx_ends_transaction:
  "\<exists>out st' evs.
     RunTx db f st = (out, st')
     \<and> log st' = log st @ evs
     \<and> \<not> tx_left_open evs
     \<and> count_list evs EvCommit + count_list evs EvRollback
         = (if isl (fst (db RunTx_opts (world st))) then 0 else 1)"
proof (cases "db RunTx_opts (world st)")
  case (Pair r w1)
  show ?thesis
  proof (cases r)
    case (Inl e)
    with Pair show ?thesis
      by (simp add: RunTx_unfold tx_left_open_def)
  next
    case (Inr tx)
    obtain o2 w2 where f: "f tx w1 = (o2, w2)" by (cases "f tx w1")
    obtain c w3 where c: "Commit tx w2 = (c, w3)" by (cases "Commit tx w2")
    obtain r w4 where r: "Rollback tx w2 = (r, w4)" by (cases "Rollback tx w2")
    show ?thesis
    proof (cases o2)
      case Panic
      with Pair Inr f c show ?thesis
        by (simp add: RunTx_unfold tx_left_open_def)
    next
      case (Return err)
      with Pair Inr f c r show ?thesis
        by (cases err) (simp_all add: RunTx_unfold tx_left_open_def)
    qed
  qed
qed

theorem RunTx_ends_transaction_witness:
  "\<exists>out st' evs.
     RunTx good_db panicking_work fresh = (out, st')
     \<and> log st' = evs
     \<and> \<not> tx_left_open evs
     \<and> count_list evs EvCommit + count_list evs EvRollback = 1"
  using RunTx_ends_transaction [of good_db panicking_work fresh]
  by (simp add: good_db_def fresh_def)

text \<open>
  C4.  When opening the transaction fails with \<open>e\<close>, \<^verbatim>\<open>RunTx\<close> returns at once the error
  \<^verbatim>\<open>begin transaction: e\<close>, which wraps \<open>e\<close>.  The only call made is \<^verbatim>\<open>BeginTxx\<close>: the unit of
  work is not invoked (the result and the world do not depend on it), and neither \<^verbatim>\<open>Commit\<close>
  nor \<^verbatim>\<open>Rollback\<close> is called.
\<close>

theorem RunTx_begin_failure:
  assumes "db RunTx_opts (world st) = (Inl e, w1)"
  shows "RunTx db f st =
           (Return (Some (BeginErr e)),
            \<lparr>world = w1, log = log st @ [EvBeginTxx RunTx_opts False]\<rparr>)
         \<and> Unwrap (BeginErr e) = Some e"
  using assms by (simp add: RunTx_unfold)

theorem RunTx_begin_failure_witness:
  "RunTx down_db panicking_work fresh =
     (Return (Some (BeginErr (DriverErr ''connection refused''))),
      \<lparr>world = [], log = [EvBeginTxx RunTx_opts False]\<rparr>)"
proof -
  have h: "down_db RunTx_opts (world fresh) = (Inl (DriverErr ''connection refused''), [])"
    by (simp add: down_db_def fresh_def)
  from RunTx_begin_failure [of down_db fresh "DriverErr ''connection refused''" "[]"
      panicking_work, OF h]
  show ?thesis by (simp add: fresh_def)
qed

section \<open>Properties of the result-set loop\<close>

declare SelectMaps_loop.simps [simp del]

lemma Combine_Some_left: "Combine [Some e, c] \<noteq> None"
  by (cases c) (simp_all add: Combine_def List.map_filter_simps)

lemma MapScan_fill_keys:
  "distinct (map fst dest) \<Longrightarrow>
     distinct (map fst (MapScan_fill cols i vals dest))
     \<and> set (map fst (MapScan_fill cols i vals dest)) = set (map fst dest) \<union> set cols"
proof (induction cols arbitrary: i dest)
  case Nil
  then show ?case by simp
next
  case (Cons c cs)
  have "distinct (map fst (AList.update c (vals i) dest))"
    using Cons.prems by (simp add: distinct_update)
  from Cons.IH [OF this, of "Suc i"] show ?case
    by (auto simp: dom_update)
qed

lemma length_MapScan_fill: "length (MapScan_fill cols i vals []) = card (set cols)"
proof -
  have "distinct (map fst (MapScan_fill cols i vals []))"
    and "set (map fst (MapScan_fill cols i vals [])) = set cols"
    using MapScan_fill_keys [of "[]" cols i vals] by simp_all
  then have "card (set cols) = length (map fst (MapScan_fill cols i vals []))"
    using distinct_card by fastforce
  then show ?thesis by simp
qed

lemma loop_Nil:
  "pending rows = [] \<Longrightarrow>
     SelectMaps_loop query args rows ret numCols st =
       (Inr ret, rows\<lparr>current := None\<rparr>, log_call EvRowsNext st)"
  by (subst SelectMaps_loop.simps) (simp add: rows_Next_def)

lemma loop_Inl:
  "pending rows = Inl e # rs \<Longrightarrow>
     SelectMaps_loop query args rows ret numCols st =
       (Inl (sqlErr e query args), rows\<lparr>pending := rs, current := Some (Inl e)\<rparr>,
        log_call EvRowsMapScan (log_call EvRowsNext st))"
  by (subst SelectMaps_loop.simps) (simp add: rows_Next_def rows_MapScan_def)

lemma loop_Inr:
  "pending rows = Inr vals # rs \<Longrightarrow>
     SelectMaps_loop query args rows ret numCols st =
       SelectMaps_loop query args (rows\<lparr>pending := rs, current := Some (Inr vals)\<rparr>)
         (ret @ [\<lparr>capacity_hint = (if numCols < 0 then None else Some (nat numCols)),
                  entries = MapScan_fill (columns rows) 0 vals []\<rparr>])
         (int (card (set (columns rows))))
         (log_call EvRowsMapScan (log_call EvRowsNext st))"
  by (subst SelectMaps_loop.simps)
    (simp add: rows_Next_def rows_MapScan_def make_map_def len_def length_MapScan_fill)

lemma loop_success:
  assumes "pending rows = ps"
    and "SelectMaps_loop query args rows ret numCols st = (Inr ret', rows', st')"
  shows "\<exists>new. ret' = ret @ new
           \<and> list_all2 (\<lambda>m r. \<exists>vals. r = Inr vals
                  \<and> entries m = MapScan_fill (columns rows) 0 vals []) new ps
           \<and> map capacity_hint new =
               (case ps of [] \<Rightarrow> []
                | r # rs \<Rightarrow> (if numCols < 0 then None else Some (nat numCols))
                            # replicate (length rs) (Some (card (set (columns rows)))))"
  using assms
proof (induction ps arbitrary: rows ret numCols st)
  case Nil
  then show ?case by (simp add: loop_Nil)
next
  case (Cons r rs)
  show ?case
  proof (cases r)
    case (Inl e)
    with Cons.prems show ?thesis by (simp add: loop_Inl)
  next
    case (Inr vals)
    let ?rows1 = "rows\<lparr>pending := rs, current := Some (Inr vals)\<rparr>"
    let ?m = "\<lparr>capacity_hint = (if numCols < 0 then None else Some (nat numCols)),
               entries = MapScan_fill (columns rows) 0 vals []\<rparr>"
    have p: "pending ?rows1 = rs" by simp
    have run: "SelectMaps_loop query args ?rows1 (ret @ [?m]) (int (card (set (columns rows))))
                 (log_call EvRowsMapScan (log_call EvRowsNext st)) = (Inr ret', rows', st')"
      using Cons.prems Inr by (simp add: loop_Inr)
    from Cons.IH [OF p run] obtain new where
      new: "ret' = (ret @ [?m]) @ new"
        "list_all2 (\<lambda>m r. \<exists>vals. r = Inr vals
            \<and> entries m = MapScan_fill (columns rows) 0 vals []) new rs"
      and hints: "map capacity_hint new = replicate (length rs) (Some (card (set (columns rows))))"
      by (cases rs) auto
    show ?thesis
      using new(1,2) hints Inr
      by (intro exI [of _ "?m # new"]) simp
  qed
qed

lemma loop_failure:
  assumes "pending rows = ps"
    and "SelectMaps_loop query args rows ret numCols st = (Inl err, rows', st')"
  shows "\<exists>d. err = sqlErr d query args \<and> Inl d \<in> set ps"
  using assms
proof (induction ps arbitrary: rows ret numCols st)
  case Nil
  then show ?case by (simp add: loop_Nil)
next
  case (Cons r rs)
  show ?case
  proof (cases r)
    case (Inl e)
    with Cons.prems show ?thesis by (auto simp: loop_Inl)
  next
    case (Inr vals)
    let ?rows1 = "rows\<lparr>pending := rs, current := Some (Inr vals)\<rparr>"
    have p: "pending ?rows1 = rs" by simp
    from Cons.prems Inr Cons.IH [OF p] show ?thesis
      by (auto simp: loop_Inr)
  qed
qed

lemma loop_effects:
  assumes "pending rows = ps"
    and "SelectMaps_loop query args rows ret numCols st = (res, rows', st')"
  shows "world st' = world st
         \<and> (\<exists>evs. log st' = log st @ evs \<and> set evs \<subseteq> {EvRowsNext, EvRowsMapScan})
         \<and> columns rows' = columns rows \<and> iter_err rows' = iter_err rows
         \<and> close_err rows' = close_err rows"
  using assms
proof (induction ps arbitrary: rows ret numCols st)
  case Nil
  then show ?case by (auto simp: loop_Nil log_call_def record_call_def)
next
  case (Cons r rs)
  show ?case
  proof (cases r)
    case (Inl e)
    with Cons.prems show ?thesis by (auto simp: loop_Inl log_call_def record_call_def)
  next
    case (Inr vals)
    let ?rows1 = "rows\<lparr>pending := rs, current := Some (Inr vals)\<rparr>"
    have p: "pending ?rows1 = rs" by simp
    have run: "SelectMaps_loop query args ?rows1
                 (ret @ [\<lparr>capacity_hint = (if numCols < 0 then None else Some (nat numCols)),
                  entries = MapScan_fill (columns rows) 0 vals []\<rparr>])
                 (int (card (set (columns rows))))
                 (log_call EvRowsMapScan (log_call EvRowsNext st)) = (res, rows', st')"
      using Cons.prems Inr by (simp add: loop_Inr)
    from Cons.IH [OF p run] show ?thesis
      by (auto simp: log_call_def record_call_def)
  qed
qed


lemma body_effects:
  assumes "SelectMaps_body query args rows st = ((ret, p), rows1, st2)"
  shows "close_err rows1 = close_err rows \<and> world st2 = world st
         \<and> (\<exists>evs. log st2 = log st @ evs \<and> set evs \<subseteq> {EvRowsNext, EvRowsMapScan, EvRowsErr})"
proof -
  obtain res rows' st' where
    loop: "SelectMaps_loop query args rows [] (- 1) st = (res, rows', st')"
    by (cases "SelectMaps_loop query args rows [] (- 1) st") auto
  from loop_effects [OF refl loop] obtain evs where
    eff: "world st' = world st" "log st' = log st @ evs" "set evs \<subseteq> {EvRowsNext, EvRowsMapScan}"
      "close_err rows' = close_err rows"
    by auto
  show ?thesis
  proof (cases res)
    case (Inl err)
    with assms loop eff show ?thesis
      by (auto simp: SelectMaps_body_def)
  next
    case (Inr maps)
    with assms loop eff show ?thesis
      by (cases "iter_err rows'")
        (auto simp: SelectMaps_body_def rows_Err_def log_call_def record_call_def)
  qed
qed

lemma body_failure:
  assumes "SelectMaps_body query args rows st = ((ret, Some e), rows1, st2)"
  shows "ret = None
         \<and> (\<exists>d. e = sqlErr d query args \<and> (Inl d \<in> set (pending rows) \<or> iter_err rows = Some d))"
proof -
  obtain res rows' st' where
    loop: "SelectMaps_loop query args rows [] (- 1) st = (res, rows', st')"
    by (cases "SelectMaps_loop query args rows [] (- 1) st") auto
  have it: "iter_err rows' = iter_err rows"
    using loop_effects [OF refl loop] by simp
  show ?thesis
  proof (cases res)
    case (Inl err)
    with assms loop loop_failure [OF refl, of query args rows "[]" "- 1" st err rows' st']
    show ?thesis by (auto simp: SelectMaps_body_def)
  next
    case (Inr maps)
    with assms loop it show ?thesis
      by (cases "iter_err rows") (auto simp: SelectMaps_body_def rows_Err_def)
  qed
qed

lemma body_success:
  assumes "SelectMaps_body query args rows st = ((ret, None), rows1, st2)"
  shows "iter_err rows = None
         \<and> (\<exists>maps. ret = Some maps
              \<and> list_all2 (\<lambda>m r. \<exists>vals. r = Inr vals
                    \<and> entries m = MapScan_fill (columns rows) 0 vals []) maps (pending rows)
              \<and> map capacity_hint maps =
                  (case pending rows of [] \<Rightarrow> []
                   | r # rs \<Rightarrow> None # replicate (length rs) (Some (card (set (columns rows))))))"
proof -
  obtain res rows' st' where
    loop: "SelectMaps_loop query args rows [] (- 1) st = (res, rows', st')"
    by (cases "SelectMaps_loop query args rows [] (- 1) st") auto
  have it: "iter_err rows' = iter_err rows"
    using loop_effects [OF refl loop] by simp
  show ?thesis
  proof (cases res)
    case (Inl err)
    with assms loop show ?thesis by (simp add: SelectMaps_body_def)
  next
    case (Inr maps)
    with loop loop_success [OF refl, of query args rows "[]" "- 1" st maps rows' st']
    have ok: "list_all2 (\<lambda>m r. \<exists>vals. r = Inr vals
                    \<and> entries m = MapScan_fill (columns rows) 0 vals []) maps (pending rows)"
      "map capacity_hint maps =
                  (case pending rows of [] \<Rightarrow> []
                   | r # rs \<Rightarrow> None # replicate (length rs) (Some (card (set (columns rows)))))"
      by (cases "pending rows"; simp)+
    from assms loop Inr it have "iter_err rows = None \<and> ret = Some maps"
      by (cases "iter_err rows") (auto simp: SelectMaps_body_def rows_Err_def)
    with ok show ?thesis by simp
  qed
qed

lemma body_total:
  "\<exists>ret p rows1 st2. SelectMaps_body query args rows st = ((ret, p), rows1, st2)"
  by (cases "SelectMaps_body query args rows st") auto

lemma body_no_failure:
  assumes "\<forall>r \<in> set (pending rows). \<not> isl r" and "iter_err rows = None"
    and "SelectMaps_body query args rows st = ((ret, p), rows1, st2)"
  shows "p = None"
proof (cases p)
  case None
  then show ?thesis .
next
  case (Some e)
  with assms(3) body_failure [of query args rows st ret e rows1 st2]
  obtain d where "Inl d \<in> set (pending rows) \<or> iter_err rows = Some d" by auto
  with assms(1,2) show ?thesis by auto
qed

lemma SelectMaps_after_query:
  assumes "call_QueryxContext db query args st = (Inr rows, st1)"
    and "SelectMaps_body query args rows st1 = ((ret, p), rows1, st2)"
  shows "SelectMaps db query args st =
           ((ret, Combine [p, close_err rows]), log_call EvRowsClose st2)"
  using assms body_effects [OF assms(2)]
  by (simp add: SelectMaps_def rows_Close_def)

section \<open>Properties of the query helpers\<close>

text \<open>
  C7.  In \<^verbatim>\<open>SelectMaps\<close>, once the query has returned a cursor, \<^verbatim>\<open>Close\<close> is called on it
  on every path, as the last call before the function returns and only then.  The error
  returned is \<^verbatim>\<open>multierr.Combine\<close> of the error \<open>p\<close> the function body ended with and the error
  of \<^verbatim>\<open>Close\<close>: a close error is returned alone when \<open>p\<close> is nil and aggregated with \<open>p\<close>
  otherwise, never discarded.
\<close>

theorem SelectMaps_closes_cursor:
  assumes "call_QueryxContext db query args st = (Inr rows, st1)"
  shows "\<exists>ret p rows1 st2 evs.
           SelectMaps_body query args rows st1 = ((ret, p), rows1, st2)
           \<and> log st2 = log st1 @ evs
           \<and> EvRowsClose \<notin> set evs
           \<and> SelectMaps db query args st =
               ((ret, Combine [p, close_err rows]),
                \<lparr>world = world st1, log = log st1 @ evs @ [EvRowsClose]\<rparr>)
           \<and> (close_err rows = None \<longrightarrow> Combine [p, close_err rows] = p)
           \<and> (\<forall>c. close_err rows = Some c \<longrightarrow>
                 (p = None \<longrightarrow> Combine [p, close_err rows] = Some c)
                 \<and> (\<forall>e. p = Some e \<longrightarrow>
                       Combine [p, close_err rows] = Some (MultiErr (Errors e @ Errors c))))"
proof -
  obtain ret p rows1 st2 where
    body: "SelectMaps_body query args rows st1 = ((ret, p), rows1, st2)"
    using body_total by blast
  from body_effects [OF body] obtain evs where
    eff: "world st2 = world st1" "log st2 = log st1 @ evs"
      "set evs \<subseteq> {EvRowsNext, EvRowsMapScan, EvRowsErr}"
    by auto
  have noclose: "EvRowsClose \<notin> set evs" using eff(3) by auto
  have run: "SelectMaps db query args st =
               ((ret, Combine [p, close_err rows]),
                \<lparr>world = world st1, log = log st1 @ evs @ [EvRowsClose]\<rparr>)"
    using SelectMaps_after_query [OF assms body] eff(1,2)
    by (simp add: log_call_def record_call_def)
  have c1: "close_err rows = None \<longrightarrow> Combine [p, close_err rows] = p"
    by (cases p) (simp_all add: Combine_def List.map_filter_simps)
  have c2: "\<forall>c. close_err rows = Some c \<longrightarrow>
                 (p = None \<longrightarrow> Combine [p, close_err rows] = Some c)
                 \<and> (\<forall>e. p = Some e \<longrightarrow>
                      Combine [p, close_err rows] = Some (MultiErr (Errors e @ Errors c)))"
    by (simp add: Combine_nil_left Combine_both)
  show ?thesis
    apply (intro exI conjI)
         apply (rule body)
        apply (rule eff(2))
       apply (rule noclose)
      apply (rule run)
     apply (rule c1)
    apply (rule c2)
    done
qed

theorem SelectMaps_closes_cursor_witness:
  "\<exists>evs. SelectMaps leaky_db all_users [] fresh =
           ((Some [], Some (DriverErr ''close failed'')),
            \<lparr>world = [all_users], log = EvQueryxContext all_users [] # evs @ [EvRowsClose]\<rparr>)
         \<and> EvRowsClose \<notin> set evs"
proof -
  let ?st1 = "\<lparr>world = [all_users], log = [EvQueryxContext all_users []]\<rparr>"
  have h: "call_QueryxContext leaky_db all_users [] fresh = (Inr leaky_rows, ?st1)"
    by (simp add: call_QueryxContext_def leaky_db_def users_db_def fresh_def record_call_def)
  have b: "SelectMaps_body all_users [] leaky_rows ?st1 =
             ((Some [], None), leaky_rows\<lparr>current := None\<rparr>,
              \<lparr>world = [all_users],
               log = [EvQueryxContext all_users [], EvRowsNext, EvRowsErr]\<rparr>)"
    by (simp add: SelectMaps_body_def loop_Nil leaky_rows_def rows_Err_def log_call_def
        record_call_def)
  from SelectMaps_closes_cursor [OF h] b show ?thesis
    by (auto simp: leaky_rows_def)
qed

text \<open>
  C10.  When \<^verbatim>\<open>SelectMaps\<close> returns a nil error, the slice it returns is not nil; for a
  query that succeeds with no row it is the empty slice.
\<close>

theorem SelectMaps_nil_error_nonnil_slice:
  assumes "SelectMaps db query args st = ((ret, None), st')"
  shows "ret \<noteq> None
         \<and> (\<forall>rows st1. call_QueryxContext db query args st = (Inr rows, st1)
               \<and> pending rows = [] \<longrightarrow> ret = Some [])"
proof (cases "call_QueryxContext db query args st")
  case (Pair r st1)
  show ?thesis
  proof (cases r)
    case (Inl e)
    with Pair assms show ?thesis by (simp add: SelectMaps_def)
  next
    case (Inr rows)
    obtain ret' p rows1 st2 where
      body: "SelectMaps_body query args rows st1 = ((ret', p), rows1, st2)"
      using body_total by blast
    from SelectMaps_after_query [of db query args st rows st1 ret' p rows1 st2] Pair Inr body assms
    have eq: "ret' = ret" "Combine [p, close_err rows] = None" by simp_all
    have p: "p = None"
      using eq(2) Combine_Some_left [of _ "close_err rows"] by (cases p) auto
    from body_success [of query args rows st1 ret' rows1 st2] body p eq(1)
    obtain maps where maps: "ret = Some maps"
      "list_all2 (\<lambda>m r. \<exists>vals. r = Inr vals
          \<and> entries m = MapScan_fill (columns rows) 0 vals []) maps (pending rows)"
      by auto
    then show ?thesis using Pair Inr by auto
  qed
qed

theorem SelectMaps_nil_error_nonnil_slice_witness:
  "\<exists>st'. SelectMaps empty_db all_users [] fresh = ((Some [], None), st')"
proof -
  have h: "SelectMaps empty_db all_users [] fresh =
             ((Some [], None),
              \<lparr>world = [all_users],
               log = [EvQueryxContext all_users [], EvRowsNext, EvRowsErr, EvRowsClose]\<rparr>)"
    by (simp add: SelectMaps_def call_QueryxContext_def empty_db_def users_db_def fresh_def
        SelectMaps_body_def loop_Nil no_rows_def rows_Err_def rows_Close_def log_call_def
        record_call_def Combine_nil_left)
  from SelectMaps_nil_error_nonnil_slice [OF h] h show ?thesis by blast
qed

lemma users_query:
  "call_QueryxContext users_db all_users [] fresh =
     (Inr users_rows, \<lparr>world = [all_users], log = [EvQueryxContext all_users []]\<rparr>)"
  by (simp add: call_QueryxContext_def users_db_def fresh_def record_call_def)

lemma users_run:
  "SelectMaps users_db all_users [] fresh =
     ((Some [\<lparr>capacity_hint = None, entries = [(''id'', ''1''), (''login'', ''ivanov'')]\<rparr>,
             \<lparr>capacity_hint = Some 2, entries = [(''id'', ''2''), (''login'', ''petrov'')]\<rparr>],
       None),
      \<lparr>world = [all_users],
       log = [EvQueryxContext all_users [], EvRowsNext, EvRowsMapScan, EvRowsNext,
              EvRowsMapScan, EvRowsNext, EvRowsErr, EvRowsClose]\<rparr>)"
  by (simp add: SelectMaps_def call_QueryxContext_def users_db_def fresh_def
      SelectMaps_body_def SelectMaps_loop.simps rows_Next_def rows_MapScan_def make_map_def
      len_def users_rows_def ivanov_def petrov_def rows_Err_def rows_Close_def log_call_def
      record_call_def Combine_nil_left)

text \<open>
  C8, as the claim states it, fails on a result set of two rows and three columns, two of
  them named \<^verbatim>\<open>id\<close>: the first mapping is created without a size (the literal
  \<^verbatim>\<open>map[string]interface{}{}\<close>), and the second with size 2, the number of entries of the
  first mapping, not the column count 3.
\<close>

theorem SelectMaps_map_size_counterexample:
  "fst (SelectMaps join_db all_orders [] fresh) =
     (Some [\<lparr>capacity_hint = None, entries = [(''id'', ''7''), (''login'', ''ivanov'')]\<rparr>,
            \<lparr>capacity_hint = Some 2, entries = [(''id'', ''8''), (''login'', ''petrov'')]\<rparr>],
      None)
   \<and> length (columns join_rows) = 3"
  by (simp add: SelectMaps_def call_QueryxContext_def join_db_def users_db_def fresh_def
      SelectMaps_body_def SelectMaps_loop.simps rows_Next_def rows_MapScan_def make_map_def
      len_def join_rows_def ivanov_order_def petrov_order_def rows_Err_def rows_Close_def
      log_call_def record_call_def Combine_nil_left)

text \<open>
  C8, amended.  When \<^verbatim>\<open>SelectMaps\<close> returns rows, it has built exactly one mapping per row
  of the result set, in order, each holding the column values of its row.  Every mapping
  has as many entries as the result set has distinct column names, which is the size of the
  first row's mapping; the first mapping is created without a size hint and every later one
  with that size as its hint.  \<^verbatim>\<open>NamedSelectMaps\<close> is \<^verbatim>\<open>SelectMaps\<close> on the expanded query.
\<close>

theorem SelectMaps_one_map_per_row:
  assumes "call_QueryxContext db query args st = (Inr rows, st1)"
    and "SelectMaps db query args st = ((Some maps, err), st')"
  shows "list_all2 (\<lambda>m r. \<exists>vals. r = Inr vals
             \<and> entries m = MapScan_fill (columns rows) 0 vals []) maps (pending rows)
         \<and> length maps = length (pending rows)
         \<and> (\<forall>m \<in> set maps. len m = int (card (set (columns rows))))
         \<and> map capacity_hint maps =
             (case maps of [] \<Rightarrow> []
              | m # ms \<Rightarrow> None # replicate (length ms) (Some (nat (len m))))
         \<and> (\<forall>nq nargs. named nquery arg = (nq, nargs, None) \<longrightarrow>
               NamedSelectMaps named db nquery arg st = SelectMaps db (Rebind db nq) nargs st)"
proof -
  obtain ret p rows1 st2 where
    body: "SelectMaps_body query args rows st1 = ((ret, p), rows1, st2)"
    using body_total by blast
  from SelectMaps_after_query [OF assms(1) body] assms(2)
  have ret: "ret = Some maps" by simp
  have p: "p = None"
  proof (cases p)
    case None
    then show ?thesis .
  next
    case (Some e)
    with body body_failure [of query args rows st1 ret e rows1 st2] ret show ?thesis by simp
  qed
  from body_success [of query args rows st1 ret rows1 st2] body p ret
  have rel: "list_all2 (\<lambda>m r. \<exists>vals. r = Inr vals
             \<and> entries m = MapScan_fill (columns rows) 0 vals []) maps (pending rows)"
    and hints: "map capacity_hint maps =
                  (case pending rows of [] \<Rightarrow> []
                   | r # rs \<Rightarrow> None # replicate (length rs) (Some (card (set (columns rows)))))"
    by simp_all
  have len_eq: "length maps = length (pending rows)"
    using rel by (rule list_all2_lengthD)
  have sizes: "\<forall>m \<in> set maps. len m = int (card (set (columns rows)))"
  proof
    fix m assume "m \<in> set maps"
    then obtain i where i: "i < length maps" "maps ! i = m"
      by (auto simp: in_set_conv_nth)
    with rel obtain vals where "entries m = MapScan_fill (columns rows) 0 vals []"
      by (auto simp: list_all2_conv_all_nth)
    then show "len m = int (card (set (columns rows)))"
      by (simp add: len_def length_MapScan_fill)
  qed
  have hints': "map capacity_hint maps =
             (case maps of [] \<Rightarrow> []
              | m # ms \<Rightarrow> None # replicate (length ms) (Some (nat (len m))))"
  proof (cases maps)
    case Nil
    then show ?thesis by simp
  next
    case (Cons m ms)
    with len_eq obtain r rs where prs: "pending rows = r # rs" "length rs = length ms"
      by (cases "pending rows") auto
    from sizes Cons have "nat (len m) = card (set (columns rows))" by simp
    with hints prs Cons show ?thesis by simp
  qed
  have named: "\<forall>nq nargs. named nquery arg = (nq, nargs, None) \<longrightarrow>
               NamedSelectMaps named db nquery arg st = SelectMaps db (Rebind db nq) nargs st"
    by (simp add: NamedSelectMaps_def namedQuery_def)
  from rel len_eq sizes hints' named show ?thesis by simp
qed

theorem SelectMaps_one_map_per_row_witness:
  "length (the (fst (fst (SelectMaps users_db all_users [] fresh)))) = 2
   \<and> map len (the (fst (fst (SelectMaps users_db all_users [] fresh)))) = [2, 2]
   \<and> map capacity_hint (the (fst (fst (SelectMaps users_db all_users [] fresh))))
       = [None, Some 2]"
  using SelectMaps_one_map_per_row [OF users_query users_run] users_run
  by (simp add: users_rows_def len_def)

lemma Exec_wraps:
  "(\<forall>res e st1. call_ExecContext db query args st = ((res, Some e), st1) \<longrightarrow>
       Exec db query args st = ((res, Some (sqlErr e query args)), st1))
   \<and> (\<forall>res st1. call_ExecContext db query args st = ((res, None), st1) \<longrightarrow>
       Exec db query args st = ((res, None), st1))"
  by (simp add: Exec_def)

lemma Select_wraps:
  "(\<forall>d e st1. call_SelectContext db dest query args st = ((d, Some e), st1) \<longrightarrow>
       Select db dest query args st = ((d, Some (sqlErr e query args)), st1))
   \<and> (\<forall>d st1. call_SelectContext db dest query args st = ((d, None), st1) \<longrightarrow>
       Select db dest query args st = ((d, None), st1))"
  by (simp add: Select_def)

lemma Get_wraps:
  "(\<forall>d e st1. call_GetContext db dest query args st = ((d, Some e), st1) \<longrightarrow>
       Get db dest query args st = ((d, Some (sqlErr e query args)), st1))
   \<and> (\<forall>d st1. call_GetContext db dest query args st = ((d, None), st1) \<longrightarrow>
       Get db dest query args st = ((d, None), st1))"
  by (simp add: Get_def)

lemma GetMap_wraps:
  "(\<forall>row st1 e. call_QueryRowxContext db query args st = (row, st1) \<and> row_err row = Some e \<longrightarrow>
       GetMap db query args st = ((None, Some (sqlErr e query args)), st1))
   \<and> (\<forall>row st1 e. call_QueryRowxContext db query args st = (row, st1) \<and> row_err row = None
          \<and> row_scan row = Inl e \<longrightarrow>
       GetMap db query args st = ((None, Some (sqlErr e query args)), log_call EvRowMapScan st1))
   \<and> (\<forall>row st1 vals. call_QueryRowxContext db query args st = (row, st1) \<and> row_err row = None
          \<and> row_scan row = Inr vals \<longrightarrow>
       GetMap db query args st =
         ((Some \<lparr>capacity_hint = None, entries = MapScan_fill (row_columns row) 0 vals []\<rparr>, None),
          log_call EvRowMapScan st1))"
  by (simp add: GetMap_def row_MapScan_def make_map_def)

lemma SelectMaps_wraps:
  "(\<forall>e st1. call_QueryxContext db query args st = (Inl e, st1) \<longrightarrow>
       SelectMaps db query args st = ((None, Some (sqlErr e query args)), st1))
   \<and> (\<forall>rows st1. call_QueryxContext db query args st = (Inr rows, st1) \<longrightarrow>
       (\<exists>ret p st'.
          SelectMaps db query args st = ((ret, Combine [p, close_err rows]), st')
          \<and> ((p = None) = ((\<forall>r \<in> set (pending rows). \<not> isl r) \<and> iter_err rows = None))
          \<and> (\<forall>e. p = Some e \<longrightarrow>
                ret = None
                \<and> (\<exists>d. e = sqlErr d query args
                      \<and> (Inl d \<in> set (pending rows) \<or> iter_err rows = Some d)))
          \<and> (p = None \<longrightarrow>
                Combine [p, close_err rows] = close_err rows
                \<and> (\<exists>maps. ret = Some maps
                      \<and> list_all2 (\<lambda>m r. \<exists>vals. r = Inr vals
                            \<and> entries m = MapScan_fill (columns rows) 0 vals [])
                          maps (pending rows)))))"
proof (intro conjI allI impI)
  fix e st1
  assume "call_QueryxContext db query args st = (Inl e, st1)"
  then show "SelectMaps db query args st = ((None, Some (sqlErr e query args)), st1)"
    by (simp add: SelectMaps_def)
next
  fix rows st1
  assume q: "call_QueryxContext db query args st = (Inr rows, st1)"
  obtain ret p rows1 st2 where
    body: "SelectMaps_body query args rows st1 = ((ret, p), rows1, st2)"
    using body_total by blast
  note run = SelectMaps_after_query [OF q body]
  have iff: "(p = None) = ((\<forall>r \<in> set (pending rows). \<not> isl r) \<and> iter_err rows = None)"
  proof
    assume "p = None"
    with body have b: "SelectMaps_body query args rows st1 = ((ret, None), rows1, st2)"
      by simp
    from body_success [OF b] have it: "iter_err rows = None" by (rule conjunct1)
    from body_success [OF b] obtain maps where
      "ret = Some maps" and "list_all2 (\<lambda>m r. \<exists>vals. r = Inr vals
          \<and> entries m = MapScan_fill (columns rows) 0 vals []) maps (pending rows)"
      by blast
    then have "\<forall>r \<in> set (pending rows). \<not> isl r"
      by (fastforce simp: list_all2_conv_all_nth in_set_conv_nth)
    with it show "(\<forall>r \<in> set (pending rows). \<not> isl r) \<and> iter_err rows = None"
      by simp
  next
    assume "(\<forall>r \<in> set (pending rows). \<not> isl r) \<and> iter_err rows = None"
    then show "p = None"
      using body_no_failure [OF _ _ body] by blast
  qed
  have fail: "\<forall>e. p = Some e \<longrightarrow>
                ret = None
                \<and> (\<exists>d. e = sqlErr d query args
                      \<and> (Inl d \<in> set (pending rows) \<or> iter_err rows = Some d))"
    using body body_failure [of query args rows st1 ret _ rows1 st2] by blast
  have ok: "p = None \<longrightarrow>
                Combine [p, close_err rows] = close_err rows
                \<and> (\<exists>maps. ret = Some maps
                      \<and> list_all2 (\<lambda>m r. \<exists>vals. r = Inr vals
                            \<and> entries m = MapScan_fill (columns rows) 0 vals [])
                          maps (pending rows))"
    using body body_success [of query args rows st1 ret rows1 st2]
    by (auto simp: Combine_nil_left)
  show "\<exists>ret p st'.
          SelectMaps db query args st = ((ret, Combine [p, close_err rows]), st')
          \<and> ((p = None) = ((\<forall>r \<in> set (pending rows). \<not> isl r) \<and> iter_err rows = None))
          \<and> (\<forall>e. p = Some e \<longrightarrow>
                ret = None
                \<and> (\<exists>d. e = sqlErr d query args
                      \<and> (Inl d \<in> set (pending rows) \<or> iter_err rows = Some d)))
          \<and> (p = None \<longrightarrow>
                Combine [p, close_err rows] = close_err rows
                \<and> (\<exists>maps. ret = Some maps
                      \<and> list_all2 (\<lambda>m r. \<exists>vals. r = Inr vals
                            \<and> entries m = MapScan_fill (columns rows) 0 vals [])
                          maps (pending rows)))"
    apply (intro exI conjI)
       apply (rule run)
      apply (rule iff)
     apply (rule fail)
    apply (rule ok)
    done
qed

text \<open>
  C5, as the claim states it, fails for \<^verbatim>\<open>SelectMaps\<close>: the query succeeds and returns no
  row, closing the cursor fails, and the helper returns the close error as it is, not wrapped
  with the query text and the arguments, next to the (empty) rows.
\<close>

theorem SelectMaps_close_error_counterexample:
  "fst (call_QueryxContext leaky_db all_users [] fresh) = Inr leaky_rows
   \<and> fst (SelectMaps leaky_db all_users [] fresh) = (Some [], Some (DriverErr ''close failed''))
   \<and> Unwrap (DriverErr ''close failed'' :: string error) = None"
  by (simp add: SelectMaps_def call_QueryxContext_def leaky_db_def users_db_def fresh_def
      SelectMaps_body_def loop_Nil leaky_rows_def rows_Err_def rows_Close_def log_call_def
      record_call_def Combine_nil_left)

text \<open>
  C5, amended.  \<^verbatim>\<open>Exec\<close>, \<^verbatim>\<open>Select\<close> and \<^verbatim>\<open>Get\<close> return the driver's error wrapped with the query
  text and the argument list when the driver call fails, and the driver's result with a nil
  error when it succeeds.  \<^verbatim>\<open>GetMap\<close> does so for the error of the row and for the error of
  scanning it, and returns the mapping of the row when both succeed.  \<^verbatim>\<open>SelectMaps\<close> does so
  for the error of the query; once the query has returned a cursor, the error \<open>p\<close> of
  scanning a row or of the iteration is wrapped in the same way and no rows are returned,
  \<open>p\<close> is nil exactly when every row scans and the iteration reports no error, and then one
  mapping per row is returned.  The error returned is \<open>p\<close> combined with the error of closing
  the cursor, which is not wrapped: when \<open>p\<close> is nil it is the close error itself.
\<close>

theorem query_helpers_wrap_errors:
  "((\<forall>res e st1. call_ExecContext db query args st = ((res, Some e), st1) \<longrightarrow>
       Exec db query args st = ((res, Some (sqlErr e query args)), st1))
   \<and> (\<forall>res st1. call_ExecContext db query args st = ((res, None), st1) \<longrightarrow>
       Exec db query args st = ((res, None), st1)))
  \<and> ((\<forall>d e st1. call_SelectContext db dest query args st = ((d, Some e), st1) \<longrightarrow>
       Select db dest query args st = ((d, Some (sqlErr e query args)), st1))
   \<and> (\<forall>d st1. call_SelectContext db dest query args st = ((d, None), st1) \<longrightarrow>
       Select db dest query args st = ((d, None), st1)))
  \<and> ((\<forall>d e st1. call_GetContext db dest query args st = ((d, Some e), st1) \<longrightarrow>
       Get db dest query args st = ((d, Some (sqlErr e query args)), st1))
   \<and> (\<forall>d st1. call_GetContext db dest query args st = ((d, None), st1) \<longrightarrow>
       Get db dest query args st = ((d, None), st1)))
  \<and> ((\<forall>row st1 e. call_QueryRowxContext db query args st = (row, st1) \<and> row_err row = Some e \<longrightarrow>
       GetMap db query args st = ((None, Some (sqlErr e query args)), st1))
   \<and> (\<forall>row st1 e. call_QueryRowxContext db query args st = (row, st1) \<and> row_err row = None
          \<and> row_scan row = Inl e \<longrightarrow>
       GetMap db query args st = ((None, Some (sqlErr e query args)), log_call EvRowMapScan st1))
   \<and> (\<forall>row st1 vals. call_QueryRowxContext db query args st = (row, st1) \<and> row_err row = None
          \<and> row_scan row = Inr vals \<longrightarrow>
       GetMap db query args st =
         ((Some \<lparr>capacity_hint = None, entries = MapScan_fill (row_columns row) 0 vals []\<rparr>, None),
          log_call EvRowMapScan st1)))
  \<and> ((\<forall>e st1. call_QueryxContext db query args st = (Inl e, st1) \<longrightarrow>
       SelectMaps db query args st = ((None, Some (sqlErr e query args)), st1))
   \<and> (\<forall>rows st1. call_QueryxContext db query args st = (Inr rows, st1) \<longrightarrow>
       (\<exists>ret p st'.
          SelectMaps db query args st = ((ret, Combine [p, close_err rows]), st')
          \<and> ((p = None) = ((\<forall>r \<in> set (pending rows). \<not> isl r) \<and> iter_err rows = None))
          \<and> (\<forall>e. p = Some e \<longrightarrow>
                ret = None
                \<and> (\<exists>d. e = sqlErr d query args
                      \<and> (Inl d \<in> set (pending rows) \<or> iter_err rows = Some d)))
          \<and> (p = None \<longrightarrow>
                Combine [p, close_err rows] = close_err rows
                \<and> (\<exists>maps. ret = Some maps
                      \<and> list_all2 (\<lambda>m r. \<exists>vals. r = Inr vals
                            \<and> entries m = MapScan_fill (columns rows) 0 vals [])
                          maps (pending rows))))))"
  apply (rule conjI)
   apply (rule Exec_wraps)
  apply (rule conjI)
   apply (rule Select_wraps)
  apply (rule conjI)
   apply (rule Get_wraps)
  apply (rule conjI)
   apply (rule GetMap_wraps)
  apply (rule SelectMaps_wraps)
  done

theorem query_helpers_wrap_errors_witness:
  "Exec users_db all_users [] fresh =
     ((Some 3, None), \<lparr>world = [all_users], log = [EvExecContext all_users []]\<rparr>)
   \<and> Select users_db [] all_users [] fresh =
     (([''ivanov'', ''petrov''], None),
      \<lparr>world = [all_users], log = [EvSelectContext all_users []]\<rparr>)
   \<and> Get users_db [] all_users [] fresh =
     (([], Some (SqlErr all_users [] (DriverErr ''sql: no rows in result set''))),
      \<lparr>world = [all_users], log = [EvGetContext all_users []]\<rparr>)
   \<and> GetMap users_db all_users [] fresh =
     ((Some \<lparr>capacity_hint = None, entries = [(''id'', ''1''), (''login'', ''ivanov'')]\<rparr>, None),
      \<lparr>world = [all_users], log = [EvQueryRowxContext all_users [], EvRowMapScan]\<rparr>)
   \<and> (\<exists>maps st'. SelectMaps users_db all_users [] fresh = ((Some maps, None), st')
          \<and> length maps = 2)"
proof -
  note inst = query_helpers_wrap_errors [of users_db all_users "[]" fresh "[]"]
  have e: "call_ExecContext users_db all_users [] fresh =
             ((Some 3, None), \<lparr>world = [all_users], log = [EvExecContext all_users []]\<rparr>)"
    by (simp add: call_ExecContext_def users_db_def fresh_def record_call_def)
  have s: "call_SelectContext users_db [] all_users [] fresh =
             (([''ivanov'', ''petrov''], None),
              \<lparr>world = [all_users], log = [EvSelectContext all_users []]\<rparr>)"
    by (simp add: call_SelectContext_def users_db_def fresh_def record_call_def)
  have g: "call_GetContext users_db [] all_users [] fresh =
             (([], Some (DriverErr ''sql: no rows in result set'')),
              \<lparr>world = [all_users], log = [EvGetContext all_users []]\<rparr>)"
    by (simp add: call_GetContext_def users_db_def fresh_def record_call_def)
  have r: "call_QueryRowxContext users_db all_users [] fresh =
             (\<lparr>row_err = None, row_columns = [''id'', ''login''], row_scan = Inr ivanov\<rparr>,
              \<lparr>world = [all_users], log = [EvQueryRowxContext all_users []]\<rparr>)"
    by (simp add: call_QueryRowxContext_def users_db_def fresh_def record_call_def)
  have q: "call_QueryxContext users_db all_users [] fresh =
             (Inr users_rows, \<lparr>world = [all_users], log = [EvQueryxContext all_users []]\<rparr>)"
    by (simp add: call_QueryxContext_def users_db_def fresh_def record_call_def)
  have c1: "Exec users_db all_users [] fresh =
     ((Some 3, None), \<lparr>world = [all_users], log = [EvExecContext all_users []]\<rparr>)"
    using inst e by simp
  have c2: "Select users_db [] all_users [] fresh =
     (([''ivanov'', ''petrov''], None),
      \<lparr>world = [all_users], log = [EvSelectContext all_users []]\<rparr>)"
    using inst s by simp
  have c3: "Get users_db [] all_users [] fresh =
     (([], Some (SqlErr all_users [] (DriverErr ''sql: no rows in result set''))),
      \<lparr>world = [all_users], log = [EvGetContext all_users []]\<rparr>)"
    using inst g by (simp add: sqlErr_def)
  have c4: "GetMap users_db all_users [] fresh =
     ((Some \<lparr>capacity_hint = None, entries = [(''id'', ''1''), (''login'', ''ivanov'')]\<rparr>, None),
      \<lparr>world = [all_users], log = [EvQueryRowxContext all_users [], EvRowMapScan]\<rparr>)"
    using inst r by (simp add: ivanov_def log_call_def record_call_def)
  from inst [THEN conjunct2, THEN conjunct2, THEN conjunct2, THEN conjunct2, THEN conjunct2,
      rule_format, OF q]
  obtain ret p st' where
    run: "SelectMaps users_db all_users [] fresh = ((ret, Combine [p, close_err users_rows]), st')"
    and iff: "(p = None) = ((\<forall>r \<in> set (pending users_rows). \<not> isl r)
                \<and> iter_err users_rows = None)"
    and ok: "p = None \<longrightarrow>
                Combine [p, close_err users_rows] = close_err users_rows
                \<and> (\<exists>maps. ret = Some maps
                      \<and> list_all2 (\<lambda>m r. \<exists>vals. r = Inr vals
                            \<and> entries m = MapScan_fill (columns users_rows) 0 vals [])
                          maps (pending users_rows))"
    by blast
  from iff have p: "p = None" by (simp add: users_rows_def)
  with ok obtain maps where maps: "ret = Some maps" "length maps = length (pending users_rows)"
    and cl: "Combine [p, close_err users_rows] = None"
    by (auto simp: users_rows_def dest: list_all2_lengthD)
  from run maps cl have c5: "\<exists>maps st'. SelectMaps users_db all_users [] fresh =
      ((Some maps, None), st') \<and> length maps = 2"
    by (simp add: users_rows_def)
  from c1 c2 c3 c4 c5 show ?thesis by simp
qed

text \<open>
  C6.  Every named-parameter variant first expands the query with \<^verbatim>\<open>namedQuery\<close>.  When the
  expansion succeeds the variant is its positional helper on the rebound positional query
  and the positional arguments.  When the expansion fails with \<open>e\<close> the variant returns \<open>e\<close>
  wrapped with the query text, with the state unchanged: no call is logged, the world is
  the same, and the result does not depend on the database handle.
\<close>

theorem named_variants_expand_then_delegate:
  "(\<forall>nq nargs. named query arg = (nq, nargs, None) \<longrightarrow>
       namedQuery named query arg = (nq, nargs, None)
     \<and> NamedExec named db query arg st = Exec db (Rebind db nq) nargs st
     \<and> NamedSelect named db dest query arg st = Select db dest (Rebind db nq) nargs st
     \<and> NamedGet named db dest query arg st = Get db dest (Rebind db nq) nargs st
     \<and> NamedSelectMaps named db query arg st = SelectMaps db (Rebind db nq) nargs st
     \<and> NamedGetMap named db query arg st = GetMap db (Rebind db nq) nargs st)
   \<and> (\<forall>nq nargs e. named query arg = (nq, nargs, Some e) \<longrightarrow>
       namedQuery named query arg = ('''', [], Some (sqlErr e query nargs))
     \<and> NamedExec named db query arg st = ((None, Some (sqlErr e query nargs)), st)
     \<and> NamedSelect named db dest query arg st = ((dest, Some (sqlErr e query nargs)), st)
     \<and> NamedGet named db dest query arg st = ((dest, Some (sqlErr e query nargs)), st)
     \<and> NamedSelectMaps named db query arg st = ((None, Some (sqlErr e query nargs)), st)
     \<and> NamedGetMap named db query arg st = ((None, Some (sqlErr e query nargs)), st))"
  by (simp add: namedQuery_def NamedExec_def NamedSelect_def NamedGet_def NamedSelectMaps_def
      NamedGetMap_def)

theorem named_variants_expand_then_delegate_witness:
  "NamedExec login_named users_db by_login [(''login'', ''petrov'')] fresh =
     Exec users_db ''SELECT * FROM test_users WHERE login=?'' [''petrov''] fresh
   \<and> NamedGetMap login_named users_db by_login [(''login'', ''petrov'')] fresh =
     GetMap users_db ''SELECT * FROM test_users WHERE login=?'' [''petrov''] fresh
   \<and> NamedSelectMaps login_named users_db by_login [] fresh =
     ((None, Some (SqlErr by_login [] (DriverErr ''could not find name login''))), fresh)"
proof -
  have ok: "login_named by_login [(''login'', ''petrov'')] =
              (''SELECT * FROM test_users WHERE login=?'', [''petrov''], None)"
    by (simp add: login_named_def)
  have bad: "login_named by_login [] = ('''', [], Some (DriverErr ''could not find name login''))"
    by (simp add: login_named_def)
  have rb: "Rebind users_db ''SELECT * FROM test_users WHERE login=?'' =
              ''SELECT * FROM test_users WHERE login=?''"
    by (simp add: users_db_def)
  from named_variants_expand_then_delegate
    [of login_named by_login "[(''login'', ''petrov'')]" users_db fresh]
    named_variants_expand_then_delegate [of login_named by_login "[]" users_db fresh]
    ok bad rb
  show ?thesis by (simp add: sqlErr_def)
qed

lemma bindMapArgs_lookup_only:
  "map_of arg = map_of arg' \<Longrightarrow>
     bindMapArgs not_found names arg arglist = bindMapArgs not_found names arg' arglist"
  by (induction names arbitrary: arglist) (simp_all split: option.splits)

text \<open>
  C9.  Two runs of \<^verbatim>\<open>namedQuery\<close> on identical query text and identical argument maps
  return identical positional query text, argument lists and errors, in whatever order
  each run meets the entries of its map: the expansion reads the map by looking names up,
  in the order the query has them.
\<close>

theorem namedQuery_deterministic:
  assumes "query = query'" and "map_of arg = map_of arg'"
  shows "namedQuery (bindMap compileNamedQuery not_found) query arg =
         namedQuery (bindMap compileNamedQuery not_found) query' arg'"
  using assms bindMapArgs_lookup_only [OF assms(2), of not_found _ "[]"]
  by (simp add: namedQuery_def bindMap_def split: sum.splits prod.splits)

theorem namedQuery_deterministic_witness:
  "namedQuery (bindMap login_compile name_not_found) by_login
     [(''login'', ''petrov''), (''id'', ''2'')] =
     (''SELECT * FROM test_users WHERE login=?'', [''petrov''], None)
   \<and> namedQuery (bindMap login_compile name_not_found)
       (''SELECT * FROM test_users '' @ ''WHERE login=:login'')
       [(''id'', ''2''), (''login'', ''petrov'')] =
     (''SELECT * FROM test_users WHERE login=?'', [''petrov''], None)"
proof -
  have q: "by_login = ''SELECT * FROM test_users '' @ ''WHERE login=:login''"
    by (simp add: by_login_def)
  have a: "map_of [(''login'', ''petrov''), (''id'', ''2'')] =
           map_of [(''id'', ''2''), (''login'', ''petrov'')]"
    by (auto simp: fun_eq_iff)
  have r: "namedQuery (bindMap login_compile name_not_found) by_login
             [(''login'', ''petrov''), (''id'', ''2'')] =
             (''SELECT * FROM test_users WHERE login=?'', [''petrov''], None)"
    by (simp add: namedQuery_def bindMap_def login_compile_def)
  from namedQuery_deterministic [OF q a, of login_compile name_not_found] r
  show ?thesis by simp
qed

end
